theory Spec2Isabelle
  imports Complex_Main "HOL-Library.Sublist" "HOL-Library.Code_Target_Nat"
begin

chapter \<open>The order pipeline of the food-delivery API (server.js)\<close>

text \<open>
  The development embeds the first snapshot of \<^verbatim>\<open>server.js\<close> (lines 1 to 2308): the
  price computation of \<^verbatim>\<open>POST /orders\<close>, its persistence and fallback paths, the
  Telegram notification, the order history, the two status-update endpoints and the two
  admin dish mutations. Handlers are functions from an environment, a request and the
  process state to a response and the new process state. Exceptions are values: a
  \<^verbatim>\<open>None\<close> result stands for a thrown error and is handled where the source has
  its \<^verbatim>\<open>catch\<close>.

  Message texts that are Russian in the source are given by English glosses, since
  strings here are lists of ASCII bytes.
\<close>

section \<open>JavaScript numbers\<close>

text \<open>
  A number is \<^verbatim>\<open>NaN\<close>, an infinity or a finite value. Finite values are exact
  rationals: the rounding and the overflow of IEEE doubles are not represented, and
  negative zero is identified with zero. Addition and multiplication follow the
  ECMAScript rules for \<^verbatim>\<open>NaN\<close> and the infinities.
\<close>

datatype jsnum = NaN | PInf | NInf | Fin rat

instantiation jsnum :: comm_monoid_add
begin

definition zero_jsnum :: jsnum where
  "zero_jsnum = Fin 0"

fun plus_jsnum :: "jsnum \<Rightarrow> jsnum \<Rightarrow> jsnum" where
  "plus_jsnum (Fin a) (Fin b) = Fin (a + b)"
| "plus_jsnum NaN y = NaN"
| "plus_jsnum x NaN = NaN"
| "plus_jsnum PInf NInf = NaN"
| "plus_jsnum NInf PInf = NaN"
| "plus_jsnum PInf y = PInf"
| "plus_jsnum x PInf = PInf"
| "plus_jsnum NInf y = NInf"
| "plus_jsnum x NInf = NInf"

instance
proof
  fix x y z :: jsnum
  show "x + y + z = x + (y + z)"
    by (cases x; cases y; cases z; simp)
  show "x + y = y + x"
    by (cases x; cases y; simp)
  show "0 + x = x"
    unfolding zero_jsnum_def by (cases x; simp)
qed

end

instantiation jsnum :: times
begin

fun times_jsnum :: "jsnum \<Rightarrow> jsnum \<Rightarrow> jsnum" where
  "times_jsnum (Fin a) (Fin b) = Fin (a * b)"
| "times_jsnum NaN y = NaN"
| "times_jsnum x NaN = NaN"
| "times_jsnum PInf PInf = PInf"
| "times_jsnum NInf NInf = PInf"
| "times_jsnum PInf NInf = NInf"
| "times_jsnum NInf PInf = NInf"
| "times_jsnum PInf (Fin b) = (if b = 0 then NaN else if 0 < b then PInf else NInf)"
| "times_jsnum NInf (Fin b) = (if b = 0 then NaN else if 0 < b then NInf else PInf)"
| "times_jsnum (Fin a) PInf = (if a = 0 then NaN else if 0 < a then PInf else NInf)"
| "times_jsnum (Fin a) NInf = (if a = 0 then NaN else if 0 < a then NInf else PInf)"

instance ..

end


definition truthy_num :: "jsnum \<Rightarrow> bool" where
  "truthy_num n = (n \<noteq> NaN \<and> n \<noteq> Fin 0)"

definition num_or :: "jsnum \<Rightarrow> jsnum \<Rightarrow> jsnum" where
  "num_or a b = (if truthy_num a then a else b)"

section \<open>Strings and the numeric built-ins\<close>

text \<open>
  \<^verbatim>\<open>parseFloat\<close>, \<^verbatim>\<open>parseInt\<close> (radix absent) and the string-to-number
  conversion of arithmetic operators, on strings: leading white space is skipped and the
  longest prefix that is a literal is read; \<^verbatim>\<open>parseInt\<close> accepts a sign and a
  \<^verbatim>\<open>0x\<close> prefix, \<^verbatim>\<open>parseFloat\<close> a sign, a fraction, an exponent and
  \<^verbatim>\<open>Infinity\<close>. White space is the ASCII white space. \<^verbatim>\<open>num_to_string\<close>
  is the number-to-string conversion: decimal notation between 1e-6 and 1e21, exponent
  notation outside. A rational that is not a finite decimal has no JavaScript counterpart;
  its digits are cut after as many places as its denominator.
\<close>

definition is_space :: "char \<Rightarrow> bool" where
  "is_space c = (c = CHR '' '' \<or> c = CHR 0x09 \<or> c = CHR 0x0A \<or> c = CHR 0x0B
      \<or> c = CHR 0x0C \<or> c = CHR 0x0D)"

definition digit_table :: "(char \<times> nat) list" where
  "digit_table = [(CHR ''0'', 0), (CHR ''1'', 1), (CHR ''2'', 2), (CHR ''3'', 3), (CHR ''4'', 4),
      (CHR ''5'', 5), (CHR ''6'', 6), (CHR ''7'', 7), (CHR ''8'', 8), (CHR ''9'', 9)]"

definition hex_table :: "(char \<times> nat) list" where
  "hex_table = digit_table @ [(CHR ''a'', 10), (CHR ''b'', 11), (CHR ''c'', 12), (CHR ''d'', 13),
      (CHR ''e'', 14), (CHR ''f'', 15), (CHR ''A'', 10), (CHR ''B'', 11), (CHR ''C'', 12),
      (CHR ''D'', 13), (CHR ''E'', 14), (CHR ''F'', 15)]"

definition in_table :: "(char \<times> nat) list \<Rightarrow> char \<Rightarrow> bool" where
  "in_table tab c = (map_of tab c \<noteq> None)"

definition digits_value :: "nat \<Rightarrow> (char \<times> nat) list \<Rightarrow> string \<Rightarrow> nat" where
  "digits_value radix tab ds =
     foldl (\<lambda>acc c. radix * acc + (case map_of tab c of Some d \<Rightarrow> d | None \<Rightarrow> 0)) 0 ds"

fun split_sign :: "string \<Rightarrow> bool \<times> string" where
  "split_sign [] = (False, [])"
| "split_sign (c # cs) =
     (if c = CHR ''-'' then (True, cs) else if c = CHR ''+'' then (False, cs) else (False, c # cs))"

definition pow10 :: "int \<Rightarrow> rat" where
  "pow10 e = (if 0 \<le> e then 10 ^ nat e else 1 / 10 ^ nat (- e))"

definition exponent_part :: "string \<Rightarrow> int \<times> string" where
  "exponent_part s =
     (case s of
        [] \<Rightarrow> (0, s)
      | c # r \<Rightarrow>
          if c = CHR ''e'' \<or> c = CHR ''E'' then
            (let (neg, r1) = split_sign r;
                 ds = takeWhile (in_table digit_table) r1;
                 e = int (digits_value 10 digit_table ds)
             in if ds = [] then (0, s)
                else (if neg then - e else e, dropWhile (in_table digit_table) r1))
          else (0, s))"

definition parse_decimal :: "string \<Rightarrow> (jsnum \<times> string) option" where
  "parse_decimal s =
     (let (neg, s1) = split_sign s in
      if prefix ''Infinity'' s1 then Some (if neg then NInf else PInf, drop 8 s1)
      else
        let ip = takeWhile (in_table digit_table) s1;
            r1 = dropWhile (in_table digit_table) s1;
            (fp, r2) = (case r1 of
                          [] \<Rightarrow> ([], [])
                        | c # r \<Rightarrow>
                            if c = CHR ''.''
                            then (takeWhile (in_table digit_table) r,
                                  dropWhile (in_table digit_table) r)
                            else ([], r1))
        in if ip = [] \<and> fp = [] then None
           else
             let (ex, r3) = exponent_part r2;
                 v = of_nat (digits_value 10 digit_table (ip @ fp)) * pow10 (ex - int (length fp))
             in Some (Fin (if neg then - v else v), r3))"

definition parseFloat_str :: "string \<Rightarrow> jsnum" where
  "parseFloat_str s =
     (case parse_decimal (dropWhile is_space s) of None \<Rightarrow> NaN | Some (v, rest) \<Rightarrow> v)"

definition parseInt_str :: "string \<Rightarrow> jsnum" where
  "parseInt_str s =
     (let (neg, s1) = split_sign (dropWhile is_space s);
          hex = (prefix ''0x'' s1 \<or> prefix ''0X'' s1);
          s2 = (if hex then drop 2 s1 else s1);
          tab = (if hex then hex_table else digit_table);
          ds = takeWhile (in_table tab) s2;
          v = int (digits_value (if hex then 16 else 10) tab ds)
      in if ds = [] then NaN else Fin (of_int (if neg then - v else v)))"

definition trim :: "string \<Rightarrow> string" where
  "trim s = rev (dropWhile is_space (rev (dropWhile is_space s)))"

definition radix_literal :: "nat \<Rightarrow> (char \<times> nat) list \<Rightarrow> string \<Rightarrow> jsnum" where
  "radix_literal radix tab ds =
     (if ds \<noteq> [] \<and> list_all (in_table tab) ds then Fin (of_nat (digits_value radix tab ds))
      else NaN)"

definition StringToNumber :: "string \<Rightarrow> jsnum" where
  "StringToNumber s =
     (let t = trim s in
      if t = [] then Fin 0
      else if prefix ''0x'' t \<or> prefix ''0X'' t then radix_literal 16 hex_table (drop 2 t)
      else if prefix ''0o'' t \<or> prefix ''0O'' t then radix_literal 8 (take 8 digit_table) (drop 2 t)
      else if prefix ''0b'' t \<or> prefix ''0B'' t then radix_literal 2 (take 2 digit_table) (drop 2 t)
      else (case parse_decimal t of Some (v, []) \<Rightarrow> v | _ \<Rightarrow> NaN))"

fun nat_to_digits :: "nat \<Rightarrow> string" where
  "nat_to_digits n =
     (if n < 10 then [''0123456789'' ! n]
      else nat_to_digits (n div 10) @ [''0123456789'' ! (n mod 10)])"

fun frac_search :: "nat \<Rightarrow> rat \<Rightarrow> nat" where
  "frac_search 0 r = 0"
| "frac_search (Suc fuel) r =
     (if r = of_int \<lfloor>r\<rfloor> then 0 else Suc (frac_search fuel (r * 10)))"

definition pos_to_string :: "rat \<Rightarrow> string" where
  "pos_to_string r =
     (let j = frac_search (nat (snd (quotient_of r))) r;
          ds0 = nat_to_digits (nat \<lfloor>r * 10 ^ j\<rfloor>);
          n = int (length ds0) - int j;
          ds = rev (dropWhile (\<lambda>c. c = CHR ''0'') (rev ds0));
          k = int (length ds)
      in if k \<le> n \<and> n \<le> 21 then ds @ replicate (nat (n - k)) (CHR ''0'')
         else if 0 < n \<and> n \<le> 21 then take (nat n) ds @ ''.'' @ drop (nat n) ds
         else if - 6 < n \<and> n \<le> 0 then ''0.'' @ replicate (nat (- n)) (CHR ''0'') @ ds
         else
           let e = n - 1;
               es = (if e < 0 then ''-'' else ''+'') @ nat_to_digits (nat \<bar>e\<bar>)
           in if k = 1 then ds @ ''e'' @ es else take 1 ds @ ''.'' @ drop 1 ds @ ''e'' @ es)"

fun num_to_string :: "jsnum \<Rightarrow> string" where
  "num_to_string NaN = ''NaN''"
| "num_to_string PInf = ''Infinity''"
| "num_to_string NInf = ''-Infinity''"
| "num_to_string (Fin r) =
     (if r = 0 then ''0'' else if r < 0 then ''-'' @ pos_to_string (- r) else pos_to_string r)"


section \<open>JavaScript values\<close>

text \<open>
  Request bodies, line items, result rows and response bodies are JavaScript values. An
  object is an association list, read with \<^verbatim>\<open>jsprop\<close>: an absent property and a
  property of a primitive are \<^verbatim>\<open>undefined\<close>. Reading a property of
  \<^verbatim>\<open>undefined\<close> or \<^verbatim>\<open>null\<close> throws in the source; every caller tests
  \<^verbatim>\<open>nullish\<close> first and takes the branch of the enclosing \<^verbatim>\<open>catch\<close>.
  \<^verbatim>\<open>js_or\<close> is the operator \<^verbatim>\<open>||\<close>, \<^verbatim>\<open>iterate\<close> is
  \<^verbatim>\<open>for ... of\<close> (arrays and strings are iterable), \<^verbatim>\<open>as_array\<close> is a call of
  an array method such as \<^verbatim>\<open>forEach\<close>, \<^verbatim>\<open>map\<close> or \<^verbatim>\<open>reduce\<close>, which
  only arrays have.
\<close>

datatype jsval =
    JUndefined
  | JNull
  | JBool bool
  | JNum jsnum
  | JStr string
  | JDate nat
  | JArr "jsval list"
  | JObj "(string \<times> jsval) list"

fun truthy :: "jsval \<Rightarrow> bool" where
  "truthy JUndefined = False"
| "truthy JNull = False"
| "truthy (JBool b) = b"
| "truthy (JNum n) = truthy_num n"
| "truthy (JStr s) = (s \<noteq> [])"
| "truthy (JDate t) = True"
| "truthy (JArr xs) = True"
| "truthy (JObj kvs) = True"

definition js_or :: "jsval \<Rightarrow> jsval \<Rightarrow> jsval" where
  "js_or a b = (if truthy a then a else b)"

definition nullish :: "jsval \<Rightarrow> bool" where
  "nullish v = (v = JUndefined \<or> v = JNull)"

definition jsprop :: "jsval \<Rightarrow> string \<Rightarrow> jsval" where
  "jsprop v k =
     (case v of
        JObj kvs \<Rightarrow> (case map_of kvs k of Some x \<Rightarrow> x | None \<Rightarrow> JUndefined)
      | _ \<Rightarrow> JUndefined)"

fun join :: "string \<Rightarrow> string list \<Rightarrow> string" where
  "join sep [] = []"
| "join sep [x] = x"
| "join sep (x # y # ys) = x @ sep @ join sep (y # ys)"

fun ToString :: "jsval \<Rightarrow> string" where
  "ToString JUndefined = ''undefined''"
| "ToString JNull = ''null''"
| "ToString (JBool b) = (if b then ''true'' else ''false'')"
| "ToString (JNum n) = num_to_string n"
| "ToString (JStr s) = s"
| "ToString (JDate t) = ''Date '' @ nat_to_digits t"
| "ToString (JArr xs) =
     join '','' (map (\<lambda>x. if x = JUndefined \<or> x = JNull then [] else ToString x) xs)"
| "ToString (JObj kvs) = ''[object Object]''"

fun ToNumber :: "jsval \<Rightarrow> jsnum" where
  "ToNumber JUndefined = NaN"
| "ToNumber JNull = Fin 0"
| "ToNumber (JBool b) = (if b then Fin 1 else Fin 0)"
| "ToNumber (JNum n) = n"
| "ToNumber (JDate t) = Fin (of_nat t)"
| "ToNumber v = StringToNumber (ToString v)"

definition parseFloat :: "jsval \<Rightarrow> jsnum" where
  "parseFloat v = parseFloat_str (ToString v)"

definition parseInt :: "jsval \<Rightarrow> jsnum" where
  "parseInt v = parseInt_str (ToString v)"

fun iterate :: "jsval \<Rightarrow> jsval list option" where
  "iterate (JArr xs) = Some xs"
| "iterate (JStr s) = Some (map (\<lambda>c. JStr [c]) s)"
| "iterate v = None"

fun as_array :: "jsval \<Rightarrow> jsval list option" where
  "as_array (JArr xs) = Some xs"
| "as_array v = None"

section \<open>Price Calculator\<close>

text \<open>
  \<^verbatim>\<open>price3\<close> is the price expression of the persist path (lines 1412 to 1415),
  \<^verbatim>\<open>price2\<close> the one of the notification and fallback paths (lines 46, 69, 1504,
  1521, 1562, 1569), \<^verbatim>\<open>quantity_of\<close> is \<^verbatim>\<open>parseInt(item.quantity) || 1\<close>
  (lines 47, 70, 1417, 1505). \<^verbatim>\<open>price_loop\<close> is the loop of lines 1403 to 1430 with its
  two accumulators, \<^verbatim>\<open>totals_loop\<close> the \<^verbatim>\<open>forEach\<close> of lines 45 to 50 and of
  lines 1503 to 1508.
\<close>

definition price3 :: "jsval \<Rightarrow> jsnum" where
  "price3 item =
     num_or (num_or (num_or (parseFloat (jsprop item ''dish_price''))
                            (parseFloat (jsprop item ''price'')))
                    (parseFloat (jsprop item ''dishPrice'')))
            (Fin 0)"

definition price2 :: "jsval \<Rightarrow> jsnum" where
  "price2 item =
     num_or (num_or (parseFloat (jsprop item ''dish_price''))
                    (parseFloat (jsprop item ''price'')))
            (Fin 0)"

definition quantity_of :: "jsval \<Rightarrow> jsnum" where
  "quantity_of item = num_or (parseInt (jsprop item ''quantity'')) (Fin 1)"

record order_item =
  oi_dish_id :: jsval
  oi_dish_name :: jsval
  oi_dish_price :: jsnum
  oi_quantity :: jsnum
  oi_dish_image :: jsval

definition make_order_item :: "jsval \<Rightarrow> order_item" where
  "make_order_item item =
     \<lparr> oi_dish_id = jsprop item ''dish_id'',
       oi_dish_name = js_or (js_or (jsprop item ''dish_name'') (jsprop item ''name'')) (JStr ''Dish''),
       oi_dish_price = price3 item,
       oi_quantity = quantity_of item,
       oi_dish_image = js_or (js_or (jsprop item ''dish_image'') (jsprop item ''imageUrl'')) (JStr []) \<rparr>"

fun price_loop :: "jsnum \<Rightarrow> order_item list \<Rightarrow> jsval list \<Rightarrow> (jsnum \<times> order_item list) option" where
  "price_loop totalAmount orderItems [] = Some (totalAmount, orderItems)"
| "price_loop totalAmount orderItems (item # rest) =
     (if nullish item then None
      else
        let price = price3 item;
            quantity = quantity_of item;
            itemTotal = price * quantity
        in price_loop (totalAmount + itemTotal) (orderItems @ [make_order_item item]) rest)"

fun totals_loop :: "jsnum \<Rightarrow> jsnum \<Rightarrow> jsval list \<Rightarrow> (jsnum \<times> jsnum) option" where
  "totals_loop totalAmount itemCount [] = Some (totalAmount, itemCount)"
| "totals_loop totalAmount itemCount (item # rest) =
     (if nullish item then None
      else
        let price = price2 item;
            quantity = quantity_of item
        in totals_loop (totalAmount + price * quantity) (itemCount + quantity) rest)"


section \<open>Process state, collaborators and requests\<close>

text \<open>
  The environment holds what the handlers do not compute themselves: the configuration
  variables, the verdict of \<^verbatim>\<open>jwt.verify\<close> on a token (\<^verbatim>\<open>None\<close> when it
  throws), the store behind \<^verbatim>\<open>pool.query\<close> (a function from a statement, its
  parameters and the store's state to the result rows and the new state, \<^verbatim>\<open>None\<close> when
  the query throws), the outcome of \<^verbatim>\<open>axios.post\<close> (\<^verbatim>\<open>None\<close> for a timeout, a
  non-2xx answer or a network failure) and the clock.

  The process state holds the availability flag and the pool (\<^verbatim>\<open>None\<close> while the
  variable is \<^verbatim>\<open>undefined\<close>, else the state of the store it is connected to),
  together with three traces: the statements sent to the store, the calls of
  \<^verbatim>\<open>sendTelegramNotification\<close> and the payloads handed to \<^verbatim>\<open>axios.post\<close>.
  \<^verbatim>\<open>pool_query\<close> on an undefined pool is the \<^verbatim>\<open>TypeError\<close> of
  \<^verbatim>\<open>pool.query\<close>: nothing is sent.
\<close>

datatype statement =
    INSERT_orders
  | INSERT_order_items
  | SELECT_order_with_items
  | UPDATE_orders_status
  | SELECT_users_telegram_chat_id
  | SELECT_orders_of_user
  | UPDATE_dishes "string list"
  | INSERT_dishes

record 'db env =
  env_ADMIN_API_KEY :: "string option"
  TELEGRAM_BOT_TOKEN :: "string option"
  TELEGRAM_CHAT_ID :: "string option"
  jwt_verify :: "string \<Rightarrow> jsval option"
  pg :: "statement \<Rightarrow> jsval list \<Rightarrow> 'db \<Rightarrow> (jsval list \<times> 'db) option"
  axios_post :: "jsval \<Rightarrow> jsval option"
  now :: nat

record 'db world =
  isDatabaseConnected :: bool
  pool :: "'db option"
  query_log :: "(statement \<times> jsval list) list"
  dispatched :: "jsval list"
  posted :: "jsval list"

record request =
  headers :: "(string \<times> string) list"
  param_id :: string
  req_body :: jsval

record response =
  status :: nat
  body :: jsval


definition pool_query ::
  "'db env \<Rightarrow> statement \<Rightarrow> jsval list \<Rightarrow> 'db world \<Rightarrow> jsval list option \<times> 'db world" where
  "pool_query env st params w =
     (case pool w of
        None \<Rightarrow> (None, w)
      | Some db \<Rightarrow>
          (case pg env st params db of
             None \<Rightarrow> (None, w\<lparr>query_log := query_log w @ [(st, params)]\<rparr>)
           | Some (rows, db') \<Rightarrow>
               (Some rows, w\<lparr>query_log := query_log w @ [(st, params)], pool := Some db'\<rparr>)))"

definition getUserIdFromToken :: "'db env \<Rightarrow> request \<Rightarrow> jsval" where
  "getUserIdFromToken env req =
     (case map_of (headers req) ''authorization'' of
        None \<Rightarrow> JNull
      | Some authHeader \<Rightarrow>
          if authHeader = [] \<or> \<not> prefix ''Bearer '' authHeader then JNull
          else
            let token = takeWhile (\<lambda>c. c \<noteq> CHR '' '') (drop 7 authHeader) in
            if token = [] then JNull
            else
              (case jwt_verify env token of
                 None \<Rightarrow> JNull
               | Some decoded \<Rightarrow> if nullish decoded then JNull else jsprop decoded ''id''))"


definition json :: "jsval \<Rightarrow> response" where
  "json b = \<lparr> status = 200, body = b \<rparr>"

definition failure :: "nat \<Rightarrow> string \<Rightarrow> response" where
  "failure code msg = \<lparr> status = code, body = JObj [(''success'', JBool False), (''error'', JStr msg)] \<rparr>"

section \<open>Notification Dispatcher\<close>

text \<open>
  \<^verbatim>\<open>sendTelegramNotification\<close> (lines 33 to 93). The message text is kept as the
  record of the values interpolated into the template. Every exception inside the function
  is caught by its own \<^verbatim>\<open>catch\<close>, which returns \<^verbatim>\<open>null\<close>.
\<close>

definition message_line :: "jsval \<Rightarrow> jsval" where
  "message_line item =
     (let price = price2 item;
          quantity = quantity_of item;
          itemTotal = price * quantity
      in JObj [(''dishName'', jsprop item ''dishName''), (''quantity'', JNum quantity),
               (''itemTotal'', JNum itemTotal)])"

definition build_message :: "jsval \<Rightarrow> jsval option" where
  "build_message orderDetails =
     (if nullish orderDetails then None
      else
        let its = jsprop orderDetails ''items'' in
        (case (case its of JArr xs \<Rightarrow> totals_loop 0 0 xs | _ \<Rightarrow> Some (0, 0)) of
           None \<Rightarrow> None
         | Some (totalAmount, itemCount) \<Rightarrow>
             let finalTotalAmount = js_or (jsprop orderDetails ''totalAmount'') (JNum totalAmount);
                 finalItemCount = js_or (jsprop orderDetails ''itemCount'') (JNum itemCount)
             in (case as_array its of
                   None \<Rightarrow> None
                 | Some xs \<Rightarrow>
                     if list_ex nullish xs then None
                     else Some (JObj
                       [(''id'', jsprop orderDetails ''id''),
                        (''customerName'', jsprop orderDetails ''customerName''),
                        (''customerPhone'', jsprop orderDetails ''customerPhone''),
                        (''deliveryAddress'', jsprop orderDetails ''deliveryAddress''),
                        (''restaurantName'', jsprop orderDetails ''restaurantName''),
                        (''finalTotalAmount'', finalTotalAmount),
                        (''finalItemCount'', finalItemCount),
                        (''lines'', JArr (map message_line xs))]))))"

definition opt_str :: "string option \<Rightarrow> jsval" where
  "opt_str x = (case x of None \<Rightarrow> JUndefined | Some s \<Rightarrow> JStr s)"

definition sendTelegramNotification :: "'db env \<Rightarrow> jsval \<Rightarrow> 'db world \<Rightarrow> jsval \<times> 'db world" where
  "sendTelegramNotification env orderDetails w0 =
     (let w = w0\<lparr>dispatched := dispatched w0 @ [orderDetails]\<rparr> in
      if \<not> truthy (opt_str (TELEGRAM_BOT_TOKEN env)) then (JNull, w)
      else
        (case build_message orderDetails of
           None \<Rightarrow> (JNull, w)
         | Some message \<Rightarrow>
             let payload = JObj [(''chat_id'', opt_str (TELEGRAM_CHAT_ID env)), (''text'', message),
                                 (''parse_mode'', JStr ''HTML'')];
                 w' = w\<lparr>posted := posted w @ [payload]\<rparr>
             in (case axios_post env payload of
                   None \<Rightarrow> (JNull, w')
                 | Some data \<Rightarrow> (data, w'))))"

section \<open>Order Assembler: POST /orders\<close>

text \<open>
  \<^verbatim>\<open>post_orders\<close> is the handler of lines 1363 to 1611: \<^verbatim>\<open>create_order_db\<close> is
  the branch of lines 1395 to 1554, \<^verbatim>\<open>create_order_mock\<close> the branch of lines 1556 to
  1602. \<^verbatim>\<open>persist_order\<close> covers lines 1397 to 1495 and returns \<^verbatim>\<open>None\<close>
  when one of its steps throws into the \<^verbatim>\<open>catch (dbError)\<close> of line 1548.
  An ISO-8601 time stamp is represented by \<^verbatim>\<open>toISOString\<close> of the instant in
  milliseconds; the calendar arithmetic is not modelled.
\<close>

definition toISOString :: "nat \<Rightarrow> string" where
  "toISOString t = ''T'' @ nat_to_digits t"

fun insert_items :: "'db env \<Rightarrow> jsval \<Rightarrow> order_item list \<Rightarrow> 'db world \<Rightarrow> bool \<times> 'db world" where
  "insert_items env order_id [] w = (True, w)"
| "insert_items env order_id (item # rest) w =
     (case pool_query env INSERT_order_items
             [order_id, oi_dish_id item, oi_dish_name item, JNum (oi_dish_price item),
              JNum (oi_quantity item), oi_dish_image item] w of
        (None, w') \<Rightarrow> (False, w')
      | (Some rows, w') \<Rightarrow> insert_items env order_id rest w')"

definition order_header_params :: "jsval \<Rightarrow> jsval \<Rightarrow> jsnum \<Rightarrow> jsval list" where
  "order_header_params userId b totalAmount =
     [userId,
      jsprop b ''restaurant_id'',
      js_or (jsprop b ''restaurant_name'') (JStr ''Restaurant''),
      js_or (jsprop b ''restaurant_image'') (JStr []),
      JNum totalAmount,
      JStr ''pending'',
      jsprop b ''delivery_address'',
      js_or (jsprop b ''payment_method'') (JStr ''Card online''),
      js_or (jsprop b ''customer_name'') (JStr ''Client''),
      js_or (jsprop b ''customer_phone'') (JStr ''Not specified'')]"

definition persist_order :: "'db env \<Rightarrow> jsval \<Rightarrow> jsval \<Rightarrow> 'db world \<Rightarrow> jsval option \<times> 'db world" where
  "persist_order env userId b w =
     (case iterate (jsprop b ''items'') of
        None \<Rightarrow> (None, w)
      | Some its \<Rightarrow>
          (case price_loop 0 [] its of
             None \<Rightarrow> (None, w)
           | Some (totalAmount, orderItems) \<Rightarrow>
               (case pool_query env INSERT_orders (order_header_params userId b totalAmount) w of
                  (None, w1) \<Rightarrow> (None, w1)
                | (Some orderRows, w1) \<Rightarrow>
                    (case orderRows of
                       [] \<Rightarrow> (None, w1)
                     | order # others \<Rightarrow>
                         if nullish order then (None, w1)
                         else
                           (case insert_items env (jsprop order ''id'') orderItems w1 of
                              (False, w2) \<Rightarrow> (None, w2)
                            | (True, w2) \<Rightarrow>
                                (case pool_query env SELECT_order_with_items [jsprop order ''id''] w2 of
                                   (None, w3) \<Rightarrow> (None, w3)
                                 | (Some fullRows, w3) \<Rightarrow>
                                     (Some (case fullRows of [] \<Rightarrow> JUndefined | fullOrder # others \<Rightarrow> fullOrder),
                                      w3)))))))"

definition notification_item :: "jsval \<Rightarrow> jsval" where
  "notification_item item =
     JObj [(''dishName'', js_or (js_or (jsprop item ''dish_name'') (jsprop item ''name'')) (JStr ''Dish'')),
           (''quantity'', js_or (jsprop item ''quantity'') (JNum (Fin 1))),
           (''dish_price'', JNum (price2 item)),
           (''price'', JNum (price2 item))]"

definition notify_persisted :: "'db env \<Rightarrow> jsval \<Rightarrow> jsval \<Rightarrow> 'db world \<Rightarrow> 'db world" where
  "notify_persisted env b fullOrder w =
     (case as_array (jsprop b ''items'') of
        None \<Rightarrow> w
      | Some its \<Rightarrow>
          (case totals_loop 0 0 its of
             None \<Rightarrow> w
           | Some (notificationTotal, notificationItemCount) \<Rightarrow>
               if nullish fullOrder then w
               else
                 snd (sendTelegramNotification env
                   (JObj [(''id'', jsprop fullOrder ''id''),
                          (''customerName'', js_or (jsprop b ''customer_name'') (JStr ''Client'')),
                          (''customerPhone'', js_or (jsprop b ''customer_phone'') (JStr ''Not specified'')),
                          (''deliveryAddress'', jsprop b ''delivery_address''),
                          (''restaurantName'', js_or (jsprop b ''restaurant_name'') (JStr ''Restaurant'')),
                          (''totalAmount'', JNum notificationTotal),
                          (''itemCount'', JNum notificationItemCount),
                          (''items'', JArr (map notification_item its))])
                   w)))"

definition order_response :: "jsval \<Rightarrow> response option" where
  "order_response fullOrder =
     (if nullish fullOrder \<or> nullish (jsprop fullOrder ''id'') then None
      else
        (case jsprop fullOrder ''order_date'' of
           JDate t \<Rightarrow>
             Some (json (JObj
               [(''success'', JBool True),
                (''message'', JStr ''Order created successfully''),
                (''order'', JObj
                  [(''id'', JStr (ToString (jsprop fullOrder ''id''))),
                   (''restaurant_name'', jsprop fullOrder ''restaurant_name''),
                   (''restaurant_image'', jsprop fullOrder ''restaurant_image''),
                   (''order_date'', JStr (toISOString t)),
                   (''total_amount'', JNum (parseFloat (jsprop fullOrder ''total_amount''))),
                   (''status'', jsprop fullOrder ''status''),
                   (''delivery_address'', jsprop fullOrder ''delivery_address''),
                   (''payment_method'', jsprop fullOrder ''payment_method''),
                   (''items'', js_or (jsprop fullOrder ''items'') (JArr []))])]))
         | _ \<Rightarrow> None))"

definition create_order_db :: "'db env \<Rightarrow> jsval \<Rightarrow> jsval \<Rightarrow> 'db world \<Rightarrow> response \<times> 'db world" where
  "create_order_db env userId b w =
     (case persist_order env userId b w of
        (None, w1) \<Rightarrow> (failure 500 ''Server error while creating the order'', w1)
      | (Some fullOrder, w1) \<Rightarrow>
          let w2 = notify_persisted env b fullOrder w1 in
          (case order_response fullOrder of
             None \<Rightarrow> (failure 500 ''Server error while creating the order'', w2)
           | Some r \<Rightarrow> (r, w2)))"

definition mock_quantity :: "jsval \<Rightarrow> jsval" where
  "mock_quantity item = js_or (jsprop item ''quantity'') (JNum (Fin 1))"

definition mock_item :: "jsval \<Rightarrow> jsval" where
  "mock_item item =
     JObj [(''dish_id'', jsprop item ''dish_id''),
           (''dish_name'', js_or (js_or (jsprop item ''dish_name'') (jsprop item ''name'')) (JStr ''Dish'')),
           (''dish_price'', JNum (price2 item)),
           (''quantity'', mock_quantity item),
           (''dish_image'', js_or (jsprop item ''dish_image'') (jsprop item ''imageUrl''))]"

definition mock_total :: "jsval list \<Rightarrow> jsnum" where
  "mock_total its = foldl (\<lambda>sum item. sum + price2 item * ToNumber (mock_quantity item)) 0 its"

definition mock_order :: "'db env \<Rightarrow> jsval \<Rightarrow> jsval list \<Rightarrow> jsval" where
  "mock_order env b its =
     JObj [(''id'', JStr (nat_to_digits (now env))),
           (''restaurant_name'', js_or (jsprop b ''restaurant_name'') (JStr ''Naetyi kaban'')),
           (''restaurant_image'', js_or (jsprop b ''restaurant_image'')
               (JStr ''https://images.unsplash.com/photo-1517248135467-4c7edcad34c4?w=400'')),
           (''order_date'', JStr (toISOString (now env))),
           (''total_amount'', JNum (mock_total its)),
           (''status'', JStr ''pending''),
           (''delivery_address'', jsprop b ''delivery_address''),
           (''payment_method'', js_or (jsprop b ''payment_method'') (JStr ''Card online'')),
           (''items'', JArr (map mock_item its))]"

definition mock_notification :: "'db env \<Rightarrow> jsval \<Rightarrow> jsval list \<Rightarrow> jsval" where
  "mock_notification env b its =
     JObj [(''id'', jsprop (mock_order env b its) ''id''),
           (''customerName'', js_or (jsprop b ''customer_name'') (JStr ''Client'')),
           (''customerPhone'', js_or (jsprop b ''customer_phone'') (JStr ''Not specified'')),
           (''deliveryAddress'', jsprop b ''delivery_address''),
           (''restaurantName'', js_or (jsprop b ''restaurant_name'') (JStr ''Naetyi kaban'')),
           (''totalAmount'', jsprop (mock_order env b its) ''total_amount''),
           (''itemCount'', JNum (Fin (of_nat (length its)))),
           (''items'', JArr (map (\<lambda>item.
               JObj [(''dishName'', js_or (js_or (jsprop item ''dish_name'') (jsprop item ''name'')) (JStr ''Dish'')),
                     (''quantity'', mock_quantity item),
                     (''totalPrice'', JNum (price2 item * ToNumber (mock_quantity item)))]) its))]"

definition create_order_mock :: "'db env \<Rightarrow> jsval \<Rightarrow> 'db world \<Rightarrow> response \<times> 'db world" where
  "create_order_mock env b w =
     (case as_array (jsprop b ''items'') of
        None \<Rightarrow> (failure 500 ''Server error'', w)
      | Some its \<Rightarrow>
          if list_ex nullish its then (failure 500 ''Server error'', w)
          else
            let w' = snd (sendTelegramNotification env (mock_notification env b its) w) in
            (json (JObj [(''success'', JBool True),
                         (''message'', JStr ''Order created (test mode)''),
                         (''order'', mock_order env b its)]),
             w'))"

definition post_orders :: "'db env \<Rightarrow> request \<Rightarrow> 'db world \<Rightarrow> response \<times> 'db world" where
  "post_orders env req w =
     (let userId = getUserIdFromToken env req in
      if \<not> truthy userId then (failure 401 ''Authorization required'', w)
      else if nullish (req_body req) then (failure 500 ''Server error'', w)
      else
        let b = req_body req in
        if \<not> truthy (jsprop b ''restaurant_id'') \<or> \<not> truthy (jsprop b ''items'')
           \<or> \<not> truthy (jsprop b ''delivery_address'')
        then (failure 400 ''Fill in the required fields: restaurant_id, items, delivery_address'', w)
        else if isDatabaseConnected w \<and> pool w \<noteq> None then create_order_db env userId b w
        else create_order_mock env b w)"


section \<open>Order history: GET /users/me/orders\<close>

text \<open>The handler of lines 804 to 910.\<close>

definition history_order :: "jsval \<Rightarrow> jsval option" where
  "history_order order =
     (if nullish order \<or> nullish (jsprop order ''id'') then None
      else
        (case jsprop order ''order_date'' of
           JDate t \<Rightarrow>
             Some (JObj
               [(''id'', JStr (ToString (jsprop order ''id''))),
                (''restaurant_name'', js_or (jsprop order ''restaurant_name'') (JStr ''Restaurant'')),
                (''restaurant_image'', js_or (jsprop order ''restaurant_image'')
                    (JStr ''https://images.unsplash.com/photo-1517248135467-4c7edcad34c4?w=400'')),
                (''order_date'', JStr (toISOString t)),
                (''total_amount'', JNum (parseFloat (jsprop order ''total_amount''))),
                (''status'', js_or (jsprop order ''status'') (JStr ''pending'')),
                (''delivery_address'', js_or (jsprop order ''delivery_address'') (JStr ''Address not specified'')),
                (''payment_method'', js_or (jsprop order ''payment_method'') (JStr ''Not specified'')),
                (''items'', js_or (jsprop order ''items'') (JArr []))])
         | _ \<Rightarrow> None))"

fun map_rows :: "(jsval \<Rightarrow> jsval option) \<Rightarrow> jsval list \<Rightarrow> jsval list option" where
  "map_rows f [] = Some []"
| "map_rows f (r # rs) =
     (case f r of
        None \<Rightarrow> None
      | Some x \<Rightarrow> (case map_rows f rs of None \<Rightarrow> None | Some xs \<Rightarrow> Some (x # xs)))"

definition mockOrders :: "nat \<Rightarrow> jsval" where
  "mockOrders t =
     JArr [JObj
       [(''id'', JStr ''100''),
        (''restaurant_name'', JStr ''Naetyi kaban''),
        (''restaurant_image'', JStr ''https://images.unsplash.com/photo-1517248135467-4c7edcad34c4?w=400''),
        (''order_date'', JStr (toISOString (t - 2 * 60 * 60 * 1000))),
        (''total_amount'', JNum (Fin 2598)),
        (''status'', JStr ''delivered''),
        (''delivery_address'', JStr ''ul. Lenina, d. 10, kv. 5''),
        (''payment_method'', JStr ''Card online''),
        (''items'', JArr
          [JObj [(''dish_id'', JStr ''1''), (''dish_name'', JStr ''Ribeye steak''),
                 (''dish_description'', JStr ''Juicy marbled beef steak''),
                 (''dish_image'', JStr ''https://images.unsplash.com/photo-1600891964092-4316c288032e?w=400''),
                 (''dish_price'', JNum (Fin 1899)), (''quantity'', JNum (Fin 1))],
           JObj [(''dish_id'', JStr ''5''), (''dish_name'', JStr ''Country-style potatoes''),
                 (''dish_description'', JStr ''Baked potatoes with herbs and garlic''),
                 (''dish_image'', JStr ''https://images.unsplash.com/photo-1573080496219-bb080dd4f877?w=400''),
                 (''dish_price'', JNum (Fin 299)), (''quantity'', JNum (Fin 1))]])]]"

definition orders_reply :: "jsval \<Rightarrow> response" where
  "orders_reply xs = json (JObj [(''success'', JBool True), (''orders'', xs)])"

definition get_users_me_orders :: "'db env \<Rightarrow> request \<Rightarrow> 'db world \<Rightarrow> response \<times> 'db world" where
  "get_users_me_orders env req w =
     (let userId = getUserIdFromToken env req in
      if \<not> truthy userId
      then (\<lparr> status = 401, body = JObj [(''error'', JStr ''Authorization required'')] \<rparr>, w)
      else if isDatabaseConnected w \<and> pool w \<noteq> None then
        (case pool_query env SELECT_orders_of_user [userId] w of
           (None, w1) \<Rightarrow> (orders_reply (JArr []), w1)
         | (Some rows, w1) \<Rightarrow>
             (case map_rows history_order rows of
                None \<Rightarrow> (orders_reply (JArr []), w1)
              | Some xs \<Rightarrow> (orders_reply (JArr xs), w1)))
      else if userId = JNum (Fin 1) then (orders_reply (mockOrders (now env)), w)
      else (orders_reply (JArr []), w))"

section \<open>Status Transition Handler\<close>








section \<open>Admin dish mutations\<close>










section \<open>An in-memory store\<close>

text \<open>
  PostgreSQL is not part of the source. \<^verbatim>\<open>mem_pg\<close> is a small stand-in that keeps
  the rows it is given; it is used to run the handlers on examples. The theorems below
  hold for every store.
\<close>

record database =
  orders :: "jsval list"
  order_items :: "jsval list"
  users :: "jsval list"
  dishes :: "jsval list"
  next_id :: nat
  clock :: nat
  reachable :: bool

definition same_id :: "jsval \<Rightarrow> jsval \<Rightarrow> bool" where
  "same_id a b = (ToString a = ToString b)"

definition set_fields :: "(string \<times> jsval) list \<Rightarrow> jsval \<Rightarrow> jsval" where
  "set_fields upd row =
     (case row of
        JObj kvs \<Rightarrow> JObj (map (\<lambda>(k, v). (k, case map_of upd k of Some v' \<Rightarrow> v' | None \<Rightarrow> v)) kvs)
      | _ \<Rightarrow> row)"

definition add_field :: "string \<Rightarrow> jsval \<Rightarrow> jsval \<Rightarrow> jsval" where
  "add_field k v row = (case row of JObj kvs \<Rightarrow> JObj (kvs @ [(k, v)]) | _ \<Rightarrow> row)"

definition items_of :: "database \<Rightarrow> jsval \<Rightarrow> jsval" where
  "items_of db order_id =
     JArr (map (\<lambda>r. JObj [(''dish_id'', jsprop r ''dish_id''), (''dish_name'', jsprop r ''dish_name''),
                          (''dish_price'', jsprop r ''dish_price''), (''quantity'', jsprop r ''quantity''),
                          (''dish_image'', jsprop r ''dish_image'')])
               (filter (\<lambda>r. same_id (jsprop r ''order_id'') order_id) (order_items db)))"

definition fresh_id :: "database \<Rightarrow> jsval" where
  "fresh_id db = JNum (Fin (of_nat (next_id db)))"

definition mem_pg :: "statement \<Rightarrow> jsval list \<Rightarrow> database \<Rightarrow> (jsval list \<times> database) option" where
  "mem_pg st ps db =
     (if \<not> reachable db then None
      else
        (case st of
           INSERT_orders \<Rightarrow>
             if length ps \<noteq> 10 then None
             else
               let row = JObj ((''id'', fresh_id db) #
                     zip [''user_id'', ''restaurant_id'', ''restaurant_name'', ''restaurant_image'',
                          ''total_amount'', ''status'', ''delivery_address'', ''payment_method'',
                          ''customer_name'', ''customer_phone''] ps
                     @ [(''order_date'', JDate (clock db))])
               in Some ([row], db\<lparr>orders := orders db @ [row], next_id := Suc (next_id db)\<rparr>)
         | INSERT_order_items \<Rightarrow>
             if length ps \<noteq> 6 then None
             else
               let row = JObj ((''id'', fresh_id db) #
                     zip [''order_id'', ''dish_id'', ''dish_name'', ''dish_price'', ''quantity'',
                          ''dish_image''] ps)
               in Some ([], db\<lparr>order_items := order_items db @ [row], next_id := Suc (next_id db)\<rparr>)
         | SELECT_order_with_items \<Rightarrow>
             (case ps of
                [order_id] \<Rightarrow>
                  Some (map (\<lambda>r. add_field ''items'' (items_of db (jsprop r ''id'')) r)
                          (filter (\<lambda>r. same_id (jsprop r ''id'') order_id) (orders db)), db)
              | _ \<Rightarrow> None)
         | UPDATE_orders_status \<Rightarrow>
             (case ps of
                [new_status, order_id] \<Rightarrow>
                  let hit = (\<lambda>r. same_id (jsprop r ''id'') order_id);
                      upd = set_fields [(''status'', new_status)]
                  in Some (map upd (filter hit (orders db)),
                           db\<lparr>orders := map (\<lambda>r. if hit r then upd r else r) (orders db)\<rparr>)
              | _ \<Rightarrow> None)
         | SELECT_users_telegram_chat_id \<Rightarrow>
             (case ps of
                [user_id] \<Rightarrow>
                  Some (map (\<lambda>u. JObj [(''telegram_chat_id'', jsprop u ''telegram_chat_id'')])
                          (filter (\<lambda>u. same_id (jsprop u ''id'') user_id) (users db)), db)
              | _ \<Rightarrow> None)
         | SELECT_orders_of_user \<Rightarrow>
             (case ps of
                [user_id] \<Rightarrow>
                  Some (map (\<lambda>r. add_field ''items'' (items_of db (jsprop r ''id'')) r)
                          (filter (\<lambda>r. same_id (jsprop r ''user_id'') user_id) (orders db)), db)
              | _ \<Rightarrow> None)
         | UPDATE_dishes cols \<Rightarrow>
             if length ps \<noteq> Suc (length cols) then None
             else
               let hit = (\<lambda>r. same_id (jsprop r ''id'') (last ps));
                   upd = set_fields (zip cols ps)
               in Some (map upd (filter hit (dishes db)),
                        db\<lparr>dishes := map (\<lambda>r. if hit r then upd r else r) (dishes db)\<rparr>)
         | INSERT_dishes \<Rightarrow>
             if length ps \<noteq> 10 then None
             else
               let row = JObj ((''id'', fresh_id db) #
                     zip [''restaurant_id'', ''name'', ''description'', ''image_url'', ''price'',
                          ''ingredients'', ''preparation_time'', ''is_vegetarian'', ''is_spicy'',
                          ''is_available''] ps)
               in Some ([row], db\<lparr>dishes := dishes db @ [row], next_id := Suc (next_id db)\<rparr>)))"


section \<open>The stated reading of the Price Calculator\<close>







definition credential_missing_or_invalid :: "'db env \<Rightarrow> request \<Rightarrow> bool" where
  "credential_missing_or_invalid env req =
     (case map_of (headers req) ''authorization'' of
        None \<Rightarrow> True
      | Some h \<Rightarrow>
          \<not> prefix ''Bearer '' h
          \<or> takeWhile (\<lambda>c. c \<noteq> CHR '' '') (drop 7 h) = []
          \<or> jwt_verify env (takeWhile (\<lambda>c. c \<noteq> CHR '' '') (drop 7 h)) = None)"

section \<open>Example inputs\<close>

definition example_items :: "jsval list" where
  "example_items =
     [JObj [(''price'', JStr ''10.5''), (''quantity'', JNum (Fin 2))],
      JObj [(''dish_price'', JNum (Fin 20)), (''quantity'', JStr ''3'')]]"


definition legacy_alias_item :: jsval where
  "legacy_alias_item =
     JObj [(''dish_name'', JStr ''Pizza''), (''dishPrice'', JStr ''699.00''), (''quantity'', JNum (Fin 2))]"

definition demo_db :: database where
  "demo_db = \<lparr> orders = [], order_items = [], users = [], dishes = [], next_id = 1,
               clock = 1000, reachable = True \<rparr>"

definition demo_env :: "database env" where
  "demo_env =
     \<lparr> env_ADMIN_API_KEY = Some ''secret'',
       TELEGRAM_BOT_TOKEN = Some ''bot-token'',
       TELEGRAM_CHAT_ID = Some ''ops-chat'',
       jwt_verify = (\<lambda>t. if t = ''good'' then Some (JObj [(''id'', JNum (Fin 7))]) else None),
       pg = mem_pg,
       axios_post = (\<lambda>payload. Some (JObj [(''ok'', JBool True)])),
       now = 1700000000000 \<rparr>"

definition world_up :: "database world" where
  "world_up = \<lparr> isDatabaseConnected = True, pool = Some demo_db, query_log = [],
                dispatched = [], posted = [] \<rparr>"



definition order_request :: "jsval \<Rightarrow> request" where
  "order_request its =
     \<lparr> headers = [(''authorization'', ''Bearer good'')], param_id = [],
       req_body = JObj [(''restaurant_id'', JNum (Fin 1)), (''items'', its),
                        (''delivery_address'', JStr ''X'')] \<rparr>"


definition anonymous_request :: request where
  "anonymous_request = \<lparr> headers = [], param_id = [], req_body = JObj [] \<rparr>"

chapter \<open>Properties\<close>

section \<open>Arithmetic and evaluation facts\<close>






section \<open>The two loops compute sums\<close>

lemma price_loop_sum:
  "list_all (\<lambda>item. \<not> nullish item) its \<Longrightarrow>
   price_loop t ois its =
     Some (t + sum_list (map (\<lambda>item. price3 item * quantity_of item) its),
           ois @ map make_order_item its)"
  by (induction its arbitrary: t ois) (simp_all add: Let_def add.assoc)

lemma totals_loop_sum:
  "list_all (\<lambda>item. \<not> nullish item) its \<Longrightarrow>
   totals_loop t c its =
     Some (t + sum_list (map (\<lambda>item. price2 item * quantity_of item) its),
           c + sum_list (map quantity_of its))"
  by (induction its arbitrary: t c) (simp_all add: Let_def add.assoc)




section \<open>What each step does to the traces\<close>




lemma sendTelegramNotification_log:
  "query_log (snd (sendTelegramNotification env od w)) = query_log w"
  by (simp add: sendTelegramNotification_def Let_def split: option.splits)

lemma sendTelegramNotification_frame:
  "pool (snd (sendTelegramNotification env od w)) = pool w \<and>
   isDatabaseConnected (snd (sendTelegramNotification env od w)) = isDatabaseConnected w"
  by (simp add: sendTelegramNotification_def Let_def split: option.splits)


lemma notify_persisted_log: "query_log (notify_persisted env b fo w) = query_log w"
  by (simp add: notify_persisted_def sendTelegramNotification_log split: option.splits prod.splits)

lemma notify_persisted_frame: "pool (notify_persisted env b fo w) = pool w"
  by (simp add: notify_persisted_def sendTelegramNotification_frame split: option.splits prod.splits)


lemma create_order_db_observable:
  "fst (create_order_db env userId b w)
     = (case fst (persist_order env userId b w) of
          None \<Rightarrow> failure 500 ''Server error while creating the order''
        | Some fullOrder \<Rightarrow>
            (case order_response fullOrder of
               None \<Rightarrow> failure 500 ''Server error while creating the order''
             | Some r \<Rightarrow> r)) \<and>
   pool (snd (create_order_db env userId b w)) = pool (snd (persist_order env userId b w)) \<and>
   query_log (snd (create_order_db env userId b w)) = query_log (snd (persist_order env userId b w))"
  by (simp add: create_order_db_def notify_persisted_frame notify_persisted_log Let_def
      split: prod.splits option.splits)

lemma create_order_mock_observable:
  "fst (create_order_mock env b w)
     = (case as_array (jsprop b ''items'') of
          None \<Rightarrow> failure 500 ''Server error''
        | Some its \<Rightarrow>
            if list_ex nullish its then failure 500 ''Server error''
            else json (JObj [(''success'', JBool True),
                             (''message'', JStr ''Order created (test mode)''),
                             (''order'', mock_order env b its)])) \<and>
   pool (snd (create_order_mock env b w)) = pool w \<and>
   query_log (snd (create_order_mock env b w)) = query_log w"
  by (simp add: create_order_mock_def sendTelegramNotification_frame sendTelegramNotification_log
      Let_def split: option.splits)


section \<open>The example environment\<close>





section \<open>C1: the order total is the sum of the line subtotals\<close>




section \<open>C2: the persisted total and the notified total\<close>

text \<open>
  The two computations agree on every order in which no item takes its price from the
  third alias.
\<close>

lemma totals_agree_without_third_alias:
  assumes readable: "list_all (\<lambda>item. \<not> nullish item) its"
    and same: "\<forall>item \<in> set its. price3 item = price2 item"
  shows "map_option fst (totals_loop 0 0 its) = map_option fst (price_loop 0 [] its)"
proof -
  have "map (\<lambda>item. price2 item * quantity_of item) its
      = map (\<lambda>item. price3 item * quantity_of item) its"
    using same by (intro map_cong) simp_all
  then have "sum_list (map (\<lambda>item. price2 item * quantity_of item) its)
      = sum_list (map (\<lambda>item. price3 item * quantity_of item) its)"
    by (rule arg_cong)
  with price_loop_sum [OF readable, of 0 "[]"] totals_loop_sum [OF readable, of 0 0]
  show ?thesis by simp
qed

text \<open>
  Claim C2 asks that the total written to the order header equal the total in the
  notification message. The persist path reads the price from \<^verbatim>\<open>dish_price\<close>,
  \<^verbatim>\<open>price\<close> or \<^verbatim>\<open>dishPrice\<close>, the notification path only from the first two. On
  the order \<^verbatim>\<open>[{dish_name: "Pizza", dishPrice: "699.00", quantity: 2}]\<close> the header
  insert carries 1398 and the message carries 0.
\<close>

theorem header_and_message_totals_differ:
  "fst (hd (query_log (snd (post_orders demo_env (order_request (JArr [legacy_alias_item])) world_up))))
     = INSERT_orders \<and>
   snd (hd (query_log (snd (post_orders demo_env (order_request (JArr [legacy_alias_item])) world_up)))) ! 4
     = JNum (Fin 1398) \<and>
   jsprop (jsprop (last (posted (snd (post_orders demo_env (order_request (JArr [legacy_alias_item])) world_up))))
            ''text'') ''finalTotalAmount''
     = JNum (Fin 0)"
  by code_simp

theorem header_and_message_totals_differ_witness:
  "snd (hd (query_log (snd (post_orders demo_env (order_request (JArr [legacy_alias_item])) world_up)))) ! 4
     \<noteq> jsprop (jsprop (last (posted (snd (post_orders demo_env (order_request (JArr [legacy_alias_item])) world_up))))
            ''text'') ''finalTotalAmount''"
  using header_and_message_totals_differ by simp

section \<open>C3: a storage failure during order creation\<close>




section \<open>C4: the fallback order\<close>



section \<open>C5: a status outside the fixed set\<close>





section \<open>C6: a missing required field\<close>




section \<open>C7: the notification outcome does not reach the caller\<close>

lemma getUserIdFromToken_axios [simp]:
  "getUserIdFromToken (env\<lparr>axios_post := f\<rparr>) req = getUserIdFromToken env req"
  by (simp add: getUserIdFromToken_def Let_def split: option.splits)

lemma pool_query_axios [simp]:
  "pool_query (env\<lparr>axios_post := f\<rparr>) st ps w = pool_query env st ps w"
  by (simp add: pool_query_def split: option.splits)

lemma insert_items_axios [simp]:
  "insert_items (env\<lparr>axios_post := f\<rparr>) oid ois w = insert_items env oid ois w"
  by (induction ois arbitrary: w) (simp_all split: prod.splits option.splits)

lemma persist_order_axios [simp]:
  "persist_order (env\<lparr>axios_post := f\<rparr>) userId b w = persist_order env userId b w"
  by (simp add: persist_order_def
      cong: option.case_cong prod.case_cong list.case_cong bool.case_cong if_cong)

lemma mock_order_axios [simp]:
  "mock_order (env\<lparr>axios_post := f\<rparr>) b its = mock_order env b its"
  by (simp add: mock_order_def)

lemma create_order_db_axios:
  "fst (create_order_db (env\<lparr>axios_post := f\<rparr>) userId b w) = fst (create_order_db env userId b w)"
  "pool (snd (create_order_db (env\<lparr>axios_post := f\<rparr>) userId b w))
     = pool (snd (create_order_db env userId b w))"
  "query_log (snd (create_order_db (env\<lparr>axios_post := f\<rparr>) userId b w))
     = query_log (snd (create_order_db env userId b w))"
  by (simp_all add: create_order_db_observable)

lemma create_order_mock_axios:
  "fst (create_order_mock (env\<lparr>axios_post := f\<rparr>) b w) = fst (create_order_mock env b w)"
  "pool (snd (create_order_mock (env\<lparr>axios_post := f\<rparr>) b w))
     = pool (snd (create_order_mock env b w))"
  "query_log (snd (create_order_mock (env\<lparr>axios_post := f\<rparr>) b w))
     = query_log (snd (create_order_mock env b w))"
  by (simp_all add: create_order_mock_observable split: option.splits)

lemma post_orders_observable_axios:
  "fst (post_orders (env\<lparr>axios_post := f\<rparr>) req w) = fst (post_orders env req w) \<and>
   pool (snd (post_orders (env\<lparr>axios_post := f\<rparr>) req w)) = pool (snd (post_orders env req w)) \<and>
   query_log (snd (post_orders (env\<lparr>axios_post := f\<rparr>) req w))
     = query_log (snd (post_orders env req w))"
  by (auto simp add: post_orders_def Let_def create_order_db_axios create_order_mock_axios)

text \<open>
  Claim C7. Whatever \<^verbatim>\<open>axios.post\<close> does (two environments that differ only in the
  outcome of the outbound call), \<^verbatim>\<open>POST /orders\<close> returns the same response, status and
  body, leaves the store in the same state and has sent it the same statements.
\<close>

theorem notification_outcome_never_changes_response:
  "fst (post_orders (env\<lparr>axios_post := f\<rparr>) req w) = fst (post_orders (env\<lparr>axios_post := g\<rparr>) req w) \<and>
   pool (snd (post_orders (env\<lparr>axios_post := f\<rparr>) req w))
     = pool (snd (post_orders (env\<lparr>axios_post := g\<rparr>) req w)) \<and>
   query_log (snd (post_orders (env\<lparr>axios_post := f\<rparr>) req w))
     = query_log (snd (post_orders (env\<lparr>axios_post := g\<rparr>) req w))"
  using post_orders_observable_axios [where f = f and env = env and req = req and w = w]
    post_orders_observable_axios [where f = g and env = env and req = req and w = w]
  by simp

text \<open>
  An instance: the order of the specification's example, once with the outbound call
  failing and once with it succeeding; the payload is handed to \<^verbatim>\<open>axios.post\<close> in both
  runs and the answer is the same 200.
\<close>

theorem notification_outcome_never_changes_response_witness:
  "fst (post_orders (demo_env\<lparr>axios_post := (\<lambda>payload. None)\<rparr>)
          (order_request (JArr example_items)) world_up)
     = fst (post_orders (demo_env\<lparr>axios_post := (\<lambda>payload. Some JNull)\<rparr>)
          (order_request (JArr example_items)) world_up) \<and>
   status (fst (post_orders (demo_env\<lparr>axios_post := (\<lambda>payload. None)\<rparr>)
          (order_request (JArr example_items)) world_up)) = 200 \<and>
   length (posted (snd (post_orders (demo_env\<lparr>axios_post := (\<lambda>payload. None)\<rparr>)
          (order_request (JArr example_items)) world_up))) = 1"
proof -
  have run: "status (fst (post_orders (demo_env\<lparr>axios_post := (\<lambda>payload. None)\<rparr>)
          (order_request (JArr example_items)) world_up)) = 200 \<and>
      length (posted (snd (post_orders (demo_env\<lparr>axios_post := (\<lambda>payload. None)\<rparr>)
          (order_request (JArr example_items)) world_up))) = 1"
    by code_simp
  from notification_outcome_never_changes_response
         [where env = demo_env and f = "\<lambda>payload. None" and g = "\<lambda>payload. Some JNull"
            and req = "order_request (JArr example_items)" and w = world_up]
  show ?thesis
    using run by simp
qed

section \<open>C8: admin mutations while the store is unavailable\<close>




section \<open>C9: the order history needs a credential\<close>

lemma credential_rejected:
  "credential_missing_or_invalid env req \<Longrightarrow> getUserIdFromToken env req = JNull"
  by (auto simp add: credential_missing_or_invalid_def getUserIdFromToken_def Let_def
      split: option.splits)

text \<open>
  Claim C9. When the \<^verbatim>\<open>Authorization\<close> header is absent, does not start with
  \<^verbatim>\<open>Bearer \<close>, carries no token or carries a token that \<^verbatim>\<open>jwt.verify\<close>
  rejects, \<^verbatim>\<open>GET /users/me/orders\<close> answers 401 and returns the process state as it
  was: no statement is sent to the store.
\<close>

theorem order_history_requires_credential:
  assumes "credential_missing_or_invalid env req"
  shows "get_users_me_orders env req w =
           (\<lparr> status = 401, body = JObj [(''error'', JStr ''Authorization required'')] \<rparr>, w)"
  using credential_rejected [OF assms] by (simp add: get_users_me_orders_def)

theorem order_history_requires_credential_witness:
  "credential_missing_or_invalid demo_env anonymous_request \<and>
   credential_missing_or_invalid demo_env (anonymous_request\<lparr>headers := [(''authorization'', ''Bearer forged'')]\<rparr>) \<and>
   status (fst (get_users_me_orders demo_env anonymous_request world_up)) = 401 \<and>
   snd (get_users_me_orders demo_env anonymous_request world_up) = world_up \<and>
   get_users_me_orders demo_env (anonymous_request\<lparr>headers := [(''authorization'', ''Bearer forged'')]\<rparr>) world_up
     = (\<lparr> status = 401, body = JObj [(''error'', JStr ''Authorization required'')] \<rparr>, world_up)"
proof -
  have a: "credential_missing_or_invalid demo_env anonymous_request"
    by (simp add: credential_missing_or_invalid_def anonymous_request_def)
  have b: "credential_missing_or_invalid demo_env
      (anonymous_request\<lparr>headers := [(''authorization'', ''Bearer forged'')]\<rparr>)"
    by (simp add: credential_missing_or_invalid_def anonymous_request_def demo_env_def)
  from order_history_requires_credential [OF a, of world_up]
    order_history_requires_credential [OF b, of world_up]
  show ?thesis
    using a b by simp
qed

section \<open>C10: a quantity that parses to zero\<close>




end
